theory Spec2Isabelle
  imports Main
begin

text \<open>
  A model of the ingestion pipeline of the varnarc API: the identifier sanitizer and the
  schema inference of \<open>services/schemaInference.ts\<close>, the row encoder, and the two
  pipelines that create the table and insert the rows in batches, the \<open>upload_old\<close>
  handler and \<open>importDataToTable\<close> of \<open>services/fileImporter.ts\<close>.
\<close>

section \<open>JavaScript strings\<close>

text \<open>
  A string is a list of code units. The model covers the code units below 256 (the
  Latin-1 range), one \<^typ>\<open>char\<close> each. The regular expressions of the source only
  name ASCII characters; \<open>trim\<close> and \<open>toLowerCase\<close> follow ECMAScript on this range.
\<close>

definition is_space :: "char \<Rightarrow> bool" where
  \<comment> \<open>WhiteSpace and LineTerminator: TAB, LF, VT, FF, CR, SP, NBSP\<close>
  "is_space c = (c \<in> set [CHR 0x09, CHR 0x0A, CHR 0x0B, CHR 0x0C, CHR 0x0D, CHR 0x20, CHR 0xA0])"

definition trim :: "string \<Rightarrow> string" where
  "trim s = rev (dropWhile is_space (rev (dropWhile is_space s)))"

definition lower_char :: "char \<Rightarrow> char" where
  \<comment> \<open>A-Z, and the Latin-1 capitals 0xC0-0xDE without the multiplication sign 0xD7\<close>
  "lower_char c =
     (let n = (of_char c :: nat) in
      if (65 \<le> n \<and> n \<le> 90) \<or> (192 \<le> n \<and> n \<le> 222 \<and> n \<noteq> 215)
      then char_of (n + 32) else c)"

definition toLowerCase :: "string \<Rightarrow> string" where
  "toLowerCase s = map lower_char s"

definition is_digit :: "char \<Rightarrow> bool" where
  \<comment> \<open>the class \<open>\d\<close>, that is \<open>[0-9]\<close>\<close>
  "is_digit c = (48 \<le> (of_char c :: nat) \<and> (of_char c :: nat) \<le> 57)"

definition is_ident_char :: "char \<Rightarrow> bool" where
  \<comment> \<open>the class \<open>[a-z0-9_]\<close>\<close>
  "is_ident_char c =
     (let n = (of_char c :: nat) in (97 \<le> n \<and> n \<le> 122) \<or> (48 \<le> n \<and> n \<le> 57) \<or> n = 95)"

definition is_underscore :: "char \<Rightarrow> bool" where
  "is_underscore c = (c = CHR ''_'')"

section \<open>sanitizeSqlIdentifier\<close>

text \<open>\<open>replace(/[^a-z0-9_]+/g, '_')\<close>: every maximal run of characters outside the class
  becomes one underscore.\<close>

function replace_non_ident :: "string \<Rightarrow> string" where
  "replace_non_ident [] = []"
| "replace_non_ident (c # cs) =
     (if is_ident_char c then c # replace_non_ident cs
      else CHR ''_'' # replace_non_ident (dropWhile (\<lambda>d. \<not> is_ident_char d) cs))"
  by pat_completeness auto
termination
  by (relation "measure length") (auto simp: less_Suc_eq_le length_dropWhile_le)

text \<open>\<open>replace(/^_+|_+$/g, '')\<close>: the leading run of underscores and the trailing run
  are removed.\<close>

definition strip_underscores :: "string \<Rightarrow> string" where
  "strip_underscores s = rev (dropWhile is_underscore (rev (dropWhile is_underscore s)))"

text \<open>\<open>replace(/__+/g, '_')\<close>: every run of two or more underscores becomes one.\<close>

function collapse_underscores :: "string \<Rightarrow> string" where
  "collapse_underscores [] = []"
| "collapse_underscores (c # cs) =
     (if is_underscore c then CHR ''_'' # collapse_underscores (dropWhile is_underscore cs)
      else c # collapse_underscores cs)"
  by pat_completeness auto
termination
  by (relation "measure length") (auto simp: less_Suc_eq_le length_dropWhile_le)

definition sanitizeSqlIdentifier :: "string \<Rightarrow> string" where
  "sanitizeSqlIdentifier name =
     (let sanitized = replace_non_ident (toLowerCase (trim name));
          sanitized = (if sanitized = [] \<or> is_digit (hd sanitized)
                       then ''col_'' @ sanitized else sanitized);
          sanitized = collapse_underscores (strip_underscores sanitized)
      in if sanitized = [] then ''col_unnamed'' else sanitized)"

text \<open>The shape \<open>^[a-z][a-z0-9_]*$\<close> of a safe identifier.\<close>

definition is_lower_letter :: "char \<Rightarrow> bool" where
  "is_lower_letter c = (97 \<le> (of_char c :: nat) \<and> (of_char c :: nat) \<le> 122)"

definition valid_identifier :: "string \<Rightarrow> bool" where
  "valid_identifier s =
     (case s of [] \<Rightarrow> False | c # cs \<Rightarrow> is_lower_letter c \<and> list_all is_ident_char cs)"

section \<open>Cells and rows\<close>

text \<open>
  A Number cell is an IEEE double. The code does no arithmetic on a cell: it asks
  \<open>Number.isInteger\<close> and \<open>Number.isNaN\<close>, compares with the 32-bit bounds and converts
  with \<open>String\<close>. A Number cell is represented by these four observations, so that
  every double is one such record.
\<close>

record jsnumber =
  num_isInteger :: bool
  num_isNaN :: bool
  num_beyond32 :: bool
  num_string :: string

datatype cell = Undefined | Null | Bool bool | Num jsnumber | Str string

text \<open>A row is \<open>Record<string, any>\<close>: reading a key that the row lacks gives
  \<open>undefined\<close>.\<close>

type_synonym row = "string \<Rightarrow> cell"

definition String :: "cell \<Rightarrow> string" where
  "String v = (case v of Undefined \<Rightarrow> ''undefined'' | Null \<Rightarrow> ''null''
     | Bool b \<Rightarrow> (if b then ''true'' else ''false'') | Num n \<Rightarrow> num_string n | Str s \<Rightarrow> s)"

definition is_nullish :: "cell \<Rightarrow> bool" where
  \<comment> \<open>\<open>value == null\<close>\<close>
  "is_nullish v = (v = Null \<or> v = Undefined)"

definition is_empty_str :: "cell \<Rightarrow> bool" where
  \<comment> \<open>\<open>value === ''\<close>\<close>
  "is_empty_str v = (v = Str [])"

section \<open>Decimal numerals\<close>

definition digit_val :: "char \<Rightarrow> int" where
  "digit_val c = of_char c - 48"

definition dec_value :: "string \<Rightarrow> int" where
  "dec_value ds = foldl (\<lambda>acc c. 10 * acc + digit_val c) 0 ds"

fun show_nat :: "nat \<Rightarrow> string" where
  "show_nat n = (if n < 10 then [char_of (48 + n)]
                 else show_nat (n div 10) @ [char_of (48 + n mod 10)])"

declare show_nat.simps [simp del]

definition is_sign :: "char \<Rightarrow> bool" where
  "is_sign c = (c = CHR ''-'' \<or> c = CHR ''+'')"

definition drop_sign :: "string \<Rightarrow> string" where
  \<comment> \<open>\<open>[-+]?\<close>\<close>
  "drop_sign s = (case s of [] \<Rightarrow> [] | c # cs \<Rightarrow> if is_sign c then cs else s)"

definition signed_value :: "string \<Rightarrow> int" where
  "signed_value s = (case s of [] \<Rightarrow> 0
     | c # cs \<Rightarrow> if c = CHR ''-'' then - dec_value cs
                else if c = CHR ''+'' then dec_value cs else dec_value s)"

definition double_finite :: "int \<Rightarrow> bool" where
  \<comment> \<open>an integer rounds to a finite double unless its magnitude reaches \<open>2^1024 - 2^970\<close>\<close>
  "double_finite n = (\<bar>n\<bar> < 2 ^ 1024 - 2 ^ 970)"

section \<open>The value tests of the type detector\<close>

definition matches_integer :: "string \<Rightarrow> bool" where
  \<comment> \<open>\<open>/^[-+]?\d+$/\<close>\<close>
  "matches_integer s = (drop_sign s \<noteq> [] \<and> list_all is_digit (drop_sign s))"

definition isIntegerLike :: "cell \<Rightarrow> bool" where
  "isIntegerLike v =
     (if is_nullish v \<or> is_empty_str v then False
      else case v of Num n \<Rightarrow> num_isInteger n
        | _ \<Rightarrow> (let s = trim (String v) in
                 if \<not> matches_integer s then False else double_finite (signed_value s)))"

definition isBigIntRange :: "cell \<Rightarrow> bool" where
  \<comment> \<open>called on integer-like values only; there \<open>Number(String(value))\<close> is the double
     nearest to the written integer and compares with the two bounds as the integer does\<close>
  "isBigIntRange v =
     (case v of Num n \<Rightarrow> num_beyond32 n
        | Str s \<Rightarrow> (let n = signed_value (trim s) in n > 2147483647 \<or> n < - 2147483648)
        | _ \<Rightarrow> False)"

definition matches_float :: "string \<Rightarrow> bool" where
  \<comment> \<open>\<open>/^[-+]?\d*(?:\.\d+)?$/\<close>\<close>
  "matches_float s =
     (case dropWhile is_digit (drop_sign s) of [] \<Rightarrow> True
        | c # frac \<Rightarrow> c = CHR ''.'' \<and> frac \<noteq> [] \<and> list_all is_digit frac)"

definition isFloatLike :: "cell \<Rightarrow> bool" where
  "isFloatLike v =
     (if is_nullish v \<or> is_empty_str v then False
      else case v of Num n \<Rightarrow> \<not> num_isNaN n \<and> \<not> num_isInteger n
        | _ \<Rightarrow> (let s = trim (String v) in
                 if \<not> matches_float s then False
                 else CHR ''.'' \<in> set s \<or> \<not> isIntegerLike v))"

definition isBooleanLike :: "cell \<Rightarrow> bool" where
  "isBooleanLike v =
     (case v of Bool b \<Rightarrow> True
        | _ \<Rightarrow> toLowerCase (trim (String v))
               \<in> set [''true'', ''false'', ''yes'', ''no'', ''y'', ''n'', ''1'', ''0''])"

definition digits_n :: "nat \<Rightarrow> string \<Rightarrow> bool" where
  \<comment> \<open>\<open>\d{n}\<close> over a whole string\<close>
  "digits_n n s = (length s = n \<and> list_all is_digit s)"

definition matches_date :: "string \<Rightarrow> bool" where
  \<comment> \<open>\<open>/^\d{4}-\d{2}-\d{2}$/\<close>\<close>
  "matches_date s =
     (length s = 10 \<and> digits_n 4 (take 4 s) \<and> s ! 4 = CHR ''-'' \<and> digits_n 2 (take 2 (drop 5 s))
      \<and> s ! 7 = CHR ''-'' \<and> digits_n 2 (drop 8 s))"

definition matches_fraction :: "string \<Rightarrow> bool" where
  \<comment> \<open>\<open>(?:\.\d+)?$\<close>\<close>
  "matches_fraction s =
     (case s of [] \<Rightarrow> True | c # frac \<Rightarrow> c = CHR ''.'' \<and> frac \<noteq> [] \<and> list_all is_digit frac)"

definition matches_datetime :: "string \<Rightarrow> bool" where
  \<comment> \<open>\<open>/^\d{4}-\d{2}-\d{2}[ T]\d{2}:\d{2}:\d{2}(?:\.\d+)?$/\<close>\<close>
  "matches_datetime s =
     (19 \<le> length s \<and> matches_date (take 10 s) \<and> (s ! 10 = CHR '' '' \<or> s ! 10 = CHR ''T'')
      \<and> digits_n 2 (take 2 (drop 11 s)) \<and> s ! 13 = CHR '':'' \<and> digits_n 2 (take 2 (drop 14 s))
      \<and> s ! 16 = CHR '':'' \<and> digits_n 2 (take 2 (drop 17 s)) \<and> matches_fraction (drop 19 s))"

definition isIsoDate :: "cell \<Rightarrow> bool" where
  "isIsoDate v =
     (if is_nullish v \<or> is_empty_str v then False else matches_date (trim (String v)))"

definition isIsoDateTime :: "cell \<Rightarrow> bool" where
  "isIsoDateTime v =
     (if is_nullish v \<or> is_empty_str v then False else matches_datetime (trim (String v)))"

section \<open>inferTableSchema\<close>

text \<open>The name \<open>INT\<close> is taken by HOL's syntax, so that type is \<open>INT_T\<close>.\<close>

datatype SqlType = INT_T | BIGINT | DOUBLE | DECIMAL | BOOLEAN | DATE | DATETIME
  | VARCHAR | TEXT | LONGTEXT

record ColumnSchema =
  name :: string
  originalHeader :: string
  type :: SqlType
  length_opt :: "nat option"
  nullable :: bool

record TableSchema =
  columns :: "ColumnSchema list"

text \<open>The loop \<open>while (used.has(name)) name = `${name}_${suffix++}`\<close>. The set \<open>used\<close>
  is the list of the names added so far. Each round makes the name longer, so fewer
  used names are at least as long: the loop ends.\<close>

function unique_name :: "string list \<Rightarrow> string \<Rightarrow> nat \<Rightarrow> string" where
  "unique_name used nm suffix =
     (if nm \<in> set used then unique_name used (nm @ ''_'' @ show_nat suffix) (Suc suffix)
      else nm)"
  by pat_completeness auto
termination
proof (relation "measure (\<lambda>(used, nm, suffix). length (filter (\<lambda>u. length nm \<le> length u) used))")
  show "wf (measure (\<lambda>(used, nm, suffix). length (filter (\<lambda>u. length nm \<le> length u) used)))"
    by simp
next
  fix used :: "string list" and nm :: string and suffix :: nat
  assume mem: "nm \<in> set used"
  let ?nm' = "nm @ ''_'' @ show_nat suffix"
  let ?P = "\<lambda>u. length nm \<le> length u"
  let ?Q = "\<lambda>u. length ?nm' \<le> length u"
  have sub: "filter ?Q used = filter ?Q (filter ?P used)"
    by (induction used) auto
  have "nm \<in> set (filter ?P used)" using mem by simp
  moreover have "\<not> ?Q nm" by simp
  ultimately have "length (filter ?Q (filter ?P used)) < length (filter ?P used)"
    by (meson length_filter_less)
  then show "((used, ?nm', Suc suffix), (used, nm, suffix))
      \<in> measure (\<lambda>(used, nm, suffix). length (filter (\<lambda>u. length nm \<le> length u) used))"
    using sub by simp
qed

declare unique_name.simps [simp del]

text \<open>The first pass, \<open>headers.map\<close>: a header that is \<open>null\<close> or \<open>undefined\<close>
  (\<open>None\<close>) reads as \<open>'column'\<close>.\<close>

definition header_text :: "string option \<Rightarrow> string" where
  \<comment> \<open>\<open>headerRaw ?? 'column'\<close>\<close>
  "header_text headerRaw = (case headerRaw of None \<Rightarrow> ''column'' | Some h \<Rightarrow> h)"

fun initial_columns :: "string list \<Rightarrow> string option list \<Rightarrow> ColumnSchema list" where
  "initial_columns used [] = []"
| "initial_columns used (headerRaw # rest) =
     (let header = header_text headerRaw;
          nm = unique_name used (sanitizeSqlIdentifier header) 1
      in \<lparr>name = nm, originalHeader = header, type = LONGTEXT, length_opt = None,
           nullable = True\<rparr> # initial_columns (used @ [nm]) rest)"

definition choose_type :: "cell list \<Rightarrow> SqlType" where
  "choose_type nonNull =
     (if length nonNull = 0 then LONGTEXT
      else if list_all isBooleanLike nonNull then BOOLEAN
      else if list_all isIntegerLike nonNull then
        (if list_ex isBigIntRange nonNull then BIGINT else BIGINT)
      else if list_all (\<lambda>v. isIntegerLike v \<or> isFloatLike v) nonNull then DOUBLE
      else if list_all isIsoDateTime nonNull then DATETIME
      else if list_all (\<lambda>v. isIsoDateTime v \<or> isIsoDate v) nonNull then DATETIME
      else if list_all isIsoDate nonNull then DATE
      else LONGTEXT)"

text \<open>The body of the second pass, for one column over the sample.\<close>

definition column_values :: "row list \<Rightarrow> ColumnSchema \<Rightarrow> cell list" where
  "column_values sample col =
     filter (\<lambda>v. v \<noteq> Undefined) (map (\<lambda>r. r (originalHeader col)) sample)"

definition column_nonNull :: "row list \<Rightarrow> ColumnSchema \<Rightarrow> cell list" where
  "column_nonNull sample col =
     filter (\<lambda>v. v \<noteq> Null \<and> v \<noteq> Str []) (column_values sample col)"

definition infer_column :: "row list \<Rightarrow> ColumnSchema \<Rightarrow> ColumnSchema" where
  "infer_column sample col =
     (let values = column_values sample col;
          nonNull = column_nonNull sample col;
          nullable = (length nonNull < length values);
          chosen = choose_type nonNull
      in col\<lparr>type := chosen, nullable := nullable, length_opt := None\<rparr>)"

definition inferTableSchema :: "string option list \<Rightarrow> row list \<Rightarrow> TableSchema" where
  "inferTableSchema headers rows =
     (let columns = initial_columns [] headers;
          sample = take 1000 rows
      in \<lparr>columns = map (infer_column sample) columns\<rparr>)"

section \<open>generateCreateTableSql\<close>

definition type_name :: "SqlType \<Rightarrow> string" where
  "type_name t = (case t of INT_T \<Rightarrow> ''INT'' | BIGINT \<Rightarrow> ''BIGINT'' | DOUBLE \<Rightarrow> ''DOUBLE''
     | DECIMAL \<Rightarrow> ''DECIMAL'' | BOOLEAN \<Rightarrow> ''BOOLEAN'' | DATE \<Rightarrow> ''DATE''
     | DATETIME \<Rightarrow> ''DATETIME'' | VARCHAR \<Rightarrow> ''VARCHAR'' | TEXT \<Rightarrow> ''TEXT''
     | LONGTEXT \<Rightarrow> ''LONGTEXT'')"

definition type_str :: "ColumnSchema \<Rightarrow> string" where
  \<comment> \<open>\<open>c.type === 'VARCHAR' && c.length ? `VARCHAR(${c.length})` : c.type\<close>\<close>
  "type_str c =
     (case length_opt c of
        Some n \<Rightarrow> if type c = VARCHAR \<and> n \<noteq> 0 then ''VARCHAR('' @ show_nat n @ '')''
                  else type_name (type c)
      | None \<Rightarrow> type_name (type c))"

fun join :: "string \<Rightarrow> string list \<Rightarrow> string" where
  "join sep [] = []"
| "join sep [x] = x"
| "join sep (x # y # ys) = x @ sep @ join sep (y # ys)"

definition backtick :: string where
  "backtick = [CHR 0x60]"

definition newline :: string where
  "newline = [CHR 0x0A]"

definition generateCreateTableSql :: "string \<Rightarrow> TableSchema \<Rightarrow> string \<Rightarrow> string \<Rightarrow> string" where
  "generateCreateTableSql tableName schema ifExists nullability =
     (let cols = map (\<lambda>c.
            let typeStr = type_str c;
                allowNull = (if nullability = ''all-nullable'' then True else nullable c);
                nullStr = (if allowNull then ''NULL'' else ''NOT NULL'')
            in backtick @ name c @ backtick @ '' '' @ typeStr @ '' '' @ nullStr) (columns schema)
      in ''CREATE TABLE IF NOT EXISTS '' @ backtick @ tableName @ backtick @ '' ('' @ newline
           @ join ('','' @ newline) cols @ newline @ '')'')"

section \<open>mapRowToSqlColumns\<close>

text \<open>
  A statement parameter is \<open>null\<close>, a string or a Number. The Numbers the encoder makes
  are written by what they are: \<open>PInt n\<close> is the Number whose value is the integer \<open>n\<close>
  (the literals 1 and 0, and the finite results of \<open>parseInt\<close>, where 0 also stands for
  \<open>-0\<close>), \<open>PInfinity neg\<close> is \<open>Infinity\<close> or \<open>-Infinity\<close>, and \<open>PNumber s\<close> is
  \<open>Number(s)\<close> for a text \<open>s\<close> that is a numeric literal.
\<close>

datatype sqlparam = PNull | PInt int | PInfinity bool | PNumber string | PStr string

text \<open>The Number for an integer: the nearest double, ties to the even significand of 53
  bits, and an infinity from \<open>2^1024 - 2^970\<close> on.\<close>

function bit_length :: "int \<Rightarrow> nat" where
  "bit_length n = (if n \<le> 0 then 0 else Suc (bit_length (n div 2)))"
  by pat_completeness auto
termination
  by (relation "measure nat") auto

declare bit_length.simps [simp del]

definition round_double :: "int \<Rightarrow> int" where
  "round_double n =
     (let a = \<bar>n\<bar>;
          e = bit_length a - 53;
          q = a div 2 ^ e;
          r = a mod 2 ^ e;
          q' = (if 2 * r > 2 ^ e \<or> (2 * r = 2 ^ e \<and> odd q) then q + 1 else q)
      in sgn n * (q' * 2 ^ e))"

definition number_of_int :: "int \<Rightarrow> sqlparam" where
  "number_of_int n = (if double_finite n then PInt (round_double n) else PInfinity (n < 0))"

definition parseInt10 :: "string \<Rightarrow> sqlparam option" where
  \<comment> \<open>\<open>Number.parseInt(s, 10)\<close>: leading white space, a sign, the longest run of
     digits, read exactly and then rounded to a Number; \<open>None\<close> is NaN\<close>
  "parseInt10 s =
     (let t = dropWhile is_space s;
          ds = takeWhile is_digit (drop_sign t)
      in if ds = [] then None
         else if t \<noteq> [] \<and> hd t = CHR ''-'' then Some (number_of_int (- dec_value ds))
         else Some (number_of_int (dec_value ds)))"

definition exponent_part :: "string \<Rightarrow> bool" where
  \<comment> \<open>an optional \<open>[eE][-+]?\d+\<close> up to the end\<close>
  "exponent_part s =
     (case s of [] \<Rightarrow> True
        | e # r \<Rightarrow> (e = CHR ''e'' \<or> e = CHR ''E'') \<and> drop_sign r \<noteq> []
                   \<and> list_all is_digit (drop_sign r))"

definition unsigned_decimal :: "string \<Rightarrow> bool" where
  "unsigned_decimal s =
     (let ip = takeWhile is_digit s; r = dropWhile is_digit s in
      case r of
        [] \<Rightarrow> ip \<noteq> []
      | c # r2 \<Rightarrow>
          if c = CHR ''.'' then
            (ip \<noteq> [] \<or> takeWhile is_digit r2 \<noteq> []) \<and> exponent_part (dropWhile is_digit r2)
          else ip \<noteq> [] \<and> exponent_part r)"

definition is_hex_digit :: "char \<Rightarrow> bool" where
  "is_hex_digit c = (is_digit c \<or> c \<in> set ''abcdefABCDEF'')"

definition nondecimal_integer :: "string \<Rightarrow> bool" where
  \<comment> \<open>\<open>0x\<close>, \<open>0o\<close>, \<open>0b\<close> literals\<close>
  "nondecimal_integer s =
     (case s of
        z # x # ds \<Rightarrow> z = CHR ''0'' \<and> ds \<noteq> [] \<and>
          ((x \<in> set ''xX'' \<and> list_all is_hex_digit ds)
           \<or> (x \<in> set ''oO'' \<and> list_all (\<lambda>c. c \<in> set ''01234567'') ds)
           \<or> (x \<in> set ''bB'' \<and> list_all (\<lambda>c. c \<in> set ''01'') ds))
      | _ \<Rightarrow> False)"

definition is_numeric_text :: "string \<Rightarrow> bool" where
  \<comment> \<open>\<open>!Number.isNaN(Number(s))\<close>: the StringNumericLiteral grammar; the empty text is 0\<close>
  "is_numeric_text s =
     (let t = trim s in
      t = [] \<or> drop_sign t = ''Infinity'' \<or> unsigned_decimal (drop_sign t)
      \<or> nondecimal_integer t)"

definition encode_cell :: "row \<Rightarrow> ColumnSchema \<Rightarrow> sqlparam" where
  "encode_cell r col =
     (let raw = r (originalHeader col) in
      if is_nullish raw \<or> is_empty_str raw then PNull
      else case type col of
          BOOLEAN \<Rightarrow>
            (let s = toLowerCase (trim (String raw)) in
             if s \<in> set [''true'', ''yes'', ''y'', ''1''] then PInt 1 else PInt 0)
        | INT_T \<Rightarrow> (case parseInt10 (String raw) of None \<Rightarrow> PNull | Some n \<Rightarrow> n)
        | BIGINT \<Rightarrow> (case parseInt10 (String raw) of None \<Rightarrow> PNull | Some n \<Rightarrow> n)
        | DOUBLE \<Rightarrow> (if is_numeric_text (String raw) then PNumber (String raw) else PNull)
        | DECIMAL \<Rightarrow> (if is_numeric_text (String raw) then PNumber (String raw) else PNull)
        | DATE \<Rightarrow> PStr (String raw)
        | DATETIME \<Rightarrow> PStr (String raw)
        | _ \<Rightarrow> PStr (String raw))"

definition mapRowToSqlColumns :: "row \<Rightarrow> string option list \<Rightarrow> TableSchema \<Rightarrow> sqlparam list" where
  "mapRowToSqlColumns r headers schema = map (encode_cell r) (columns schema)"

section \<open>The store\<close>

text \<open>
  The pipeline talks to the relational store through \<open>conn.query\<close> only. A statement is
  kept by its shape and its parameters. The store is any function that answers a statement
  after a history of statements, with rows, with a plain result packet or by throwing.
\<close>

record file_entry =
  file_id :: string
  file_name :: string
  file_mimeType :: string
  file_webViewLink :: string

datatype stmt =
    RegisterProcessing file_entry
      \<comment> \<open>\<open>INSERT INTO files (...) VALUES (...) ON DUPLICATE KEY UPDATE status='processing'\<close>\<close>
  | SetStatus string string
      \<comment> \<open>\<open>UPDATE files SET status='<status>' WHERE id=?\<close>, the status and the id\<close>
  | SetProcessed nat string
      \<comment> \<open>\<open>UPDATE files SET row_count=?, status='processed' WHERE id=?\<close>\<close>
  | DropTable string
      \<comment> \<open>\<open>DROP TABLE IF EXISTS `t`\<close>\<close>
  | ShowTables string
      \<comment> \<open>\<open>SHOW TABLES LIKE ?\<close>\<close>
  | CreateTable string
      \<comment> \<open>the text made by \<open>generateCreateTableSql\<close>\<close>
  | Insert string "string list" "sqlparam list list"
      \<comment> \<open>\<open>INSERT INTO `t` (cols) VALUES (?,..),(?,..)\<close>: table, column names, one
         parameter group per row\<close>
  | Describe string
      \<comment> \<open>\<open>DESCRIBE `t`\<close>\<close>
  | AlterNull string string string
      \<comment> \<open>\<open>ALTER TABLE `t` MODIFY `c` <type> NULL\<close>\<close>

record sql_error =
  sqlMessage :: string
  message :: string

datatype reply = Rows "(string \<times> string) list list" | OkPacket

type_synonym store = "stmt list \<Rightarrow> stmt \<Rightarrow> sql_error + reply"

text \<open>An action runs against the log of the statements sent so far; it returns a value or
  the thrown error, and the longer log.\<close>

type_synonym 'a action = "stmt list \<Rightarrow> (sql_error + 'a) \<times> stmt list"

definition query :: "store \<Rightarrow> stmt \<Rightarrow> reply action" where
  "query db s log = (db log s, log @ [s])"

definition return :: "'a \<Rightarrow> 'a action" where
  "return x log = (Inr x, log)"

definition throw :: "sql_error \<Rightarrow> 'a action" where
  "throw e log = (Inl e, log)"

definition bind :: "'a action \<Rightarrow> ('a \<Rightarrow> 'b action) \<Rightarrow> 'b action" where
  "bind m f log = (case m log of (Inl e, log') \<Rightarrow> (Inl e, log') | (Inr x, log') \<Rightarrow> f x log')"

definition try_catch :: "'a action \<Rightarrow> (sql_error \<Rightarrow> 'a action) \<Rightarrow> 'a action" where
  "try_catch m h log = (case m log of (Inl e, log') \<Rightarrow> h e log' | (Inr x, log') \<Rightarrow> (Inr x, log'))"

section \<open>The repair of a not-null violation\<close>

definition quote :: char where
  "quote = CHR 0x27"

definition ascii_lower :: "char \<Rightarrow> char" where
  "ascii_lower c = (let n = (of_char c :: nat) in if 65 \<le> n \<and> n \<le> 90 then char_of (n + 32) else c)"

definition ci_prefix :: "string \<Rightarrow> string \<Rightarrow> bool" where
  \<comment> \<open>the lower-case pattern \<open>p\<close> starts \<open>s\<close>, letters compared without case\<close>
  "ci_prefix p s = (length p \<le> length s \<and> map ascii_lower (take (length p) s) = p)"

definition not_null_here :: "string \<Rightarrow> string option" where
  \<comment> \<open>\<open>Column '([^']+)' cannot be null\<close> matched at the start of \<open>s\<close>\<close>
  "not_null_here s =
     (if ci_prefix (''column '' @ [quote]) s then
        (let r = drop 8 s;
             col = takeWhile (\<lambda>c. c \<noteq> quote) r;
             r' = dropWhile (\<lambda>c. c \<noteq> quote) r
         in if col \<noteq> [] \<and> ci_prefix ([quote] @ '' cannot be null'') r' then Some col else None)
      else None)"

fun not_null_column :: "string \<Rightarrow> string option" where
  \<comment> \<open>\<open>msg.match(/Column '([^']+)' cannot be null/i)\<close>: the leftmost match, its group 1\<close>
  "not_null_column [] = not_null_here []"
| "not_null_column (c # cs) =
     (case not_null_here (c # cs) of Some col \<Rightarrow> Some col | None \<Rightarrow> not_null_column cs)"

definition error_text :: "sql_error \<Rightarrow> string" where
  \<comment> \<open>\<open>e?.sqlMessage || e?.message || ''\<close>\<close>
  "error_text e = (if sqlMessage e \<noteq> [] then sqlMessage e else if message e \<noteq> [] then message e else [])"

definition described_type :: "reply \<Rightarrow> string \<Rightarrow> string" where
  \<comment> \<open>\<open>found?.Type || 'TEXT'\<close> over the rows of DESCRIBE\<close>
  "described_type descRows colName =
     (let found = (case descRows of Rows rs \<Rightarrow> find (\<lambda>r. map_of r ''Field'' = Some colName) rs
                     | OkPacket \<Rightarrow> None);
          t = (case found of None \<Rightarrow> [] | Some r \<Rightarrow> (case map_of r ''Type'' of None \<Rightarrow> [] | Some t \<Rightarrow> t))
      in if t = [] then ''TEXT'' else t)"

definition column_type_str :: "store \<Rightarrow> TableSchema \<Rightarrow> string \<Rightarrow> string \<Rightarrow> string action" where
  "column_type_str db schema tableName colName =
     (let col = find (\<lambda>c. name c = colName) (columns schema);
          typeStr = (case col of Some c \<Rightarrow> type_str c | None \<Rightarrow> [])
      in if typeStr = [] then
           bind (query db (Describe tableName)) (\<lambda>descRows. return (described_type descRows colName))
         else return typeStr)"

text \<open>The \<open>try\<close>/\<open>catch\<close> around one batch insert in the \<open>upload_old\<close> handler.\<close>

definition insert_with_repair :: "store \<Rightarrow> TableSchema \<Rightarrow> string \<Rightarrow> stmt \<Rightarrow> unit action" where
  "insert_with_repair db schema tableName ins =
     try_catch (bind (query db ins) (\<lambda>_. return ()))
       (\<lambda>e. case not_null_column (error_text e) of
               Some colName \<Rightarrow>
                 bind (column_type_str db schema tableName colName) (\<lambda>typeStr.
                 bind (query db (AlterNull tableName colName typeStr)) (\<lambda>_.
                 bind (query db ins) (\<lambda>_. return ())))
             | None \<Rightarrow> throw e)"

text \<open>The bare insert of \<open>importDataToTable\<close>.\<close>

definition insert_plain :: "store \<Rightarrow> stmt \<Rightarrow> unit action" where
  "insert_plain db ins = bind (query db ins) (\<lambda>_. return ())"

section \<open>The batch loop\<close>

definition batchSize :: nat where
  "batchSize = 500"

definition slice :: "'a list \<Rightarrow> nat \<Rightarrow> nat \<Rightarrow> 'a list" where
  \<comment> \<open>\<open>xs.slice(i, j)\<close> for \<open>0 \<le> i \<le> j\<close>\<close>
  "slice xs i j = take (j - i) (drop i xs)"

text \<open>\<open>for (let i = 0; i < parsed.rows.length; i += batchSize)\<close>; the two pipelines differ
  in how a batch is submitted.\<close>

function insert_batches ::
  "(stmt \<Rightarrow> unit action) \<Rightarrow> TableSchema \<Rightarrow> string \<Rightarrow> string option list \<Rightarrow> row list \<Rightarrow> nat \<Rightarrow> unit action"
where
  "insert_batches submit schema tableName hs rws i log =
     (if i < length rws then
        (let batch = slice rws i (i + batchSize);
             values = map (\<lambda>r. mapRowToSqlColumns r hs schema) batch;
             flatValues = concat values;
             insertStmt = Insert tableName (map name (columns schema)) values
         in case (if length flatValues > 0 then submit insertStmt log else (Inr (), log)) of
              (Inl e, log') \<Rightarrow> (Inl e, log')
            | (Inr u, log') \<Rightarrow> insert_batches submit schema tableName hs rws (i + batchSize) log')
      else (Inr (), log))"
  by pat_completeness auto
termination
  by (relation "measure (\<lambda>(submit, schema, tableName, hs, rws, i, log). length rws - i)")
     (auto simp: batchSize_def)

declare insert_batches.simps [simp del]

section \<open>The two pipelines\<close>

record ParsedData =
  headers :: "string option list"
  rows :: "row list"

definition target_table :: "string \<Rightarrow> string \<Rightarrow> string" where
  \<comment> \<open>\<open>sanitizeSqlIdentifier(explicitTableName || suggestedNameFromFile)\<close>\<close>
  "target_table explicitTableName suggestedNameFromFile =
     sanitizeSqlIdentifier (if explicitTableName \<noteq> [] then explicitTableName
                            else suggestedNameFromFile)"

definition table_exists :: "reply \<Rightarrow> bool" where
  \<comment> \<open>\<open>Array.isArray(existing) && existing.length > 0\<close>\<close>
  "table_exists existing = (case existing of Rows rs \<Rightarrow> length rs > 0 | OkPacket \<Rightarrow> False)"

datatype outcome = Continue | Processed string nat | Failed

text \<open>
  The body of the loop over the files in the \<open>upload_old\<close> handler, from the registry
  upsert on. The download, the resolved extension \<open>ext\<close>, the name taken from the file
  name and the parser's result come from collaborators and are inputs. An error that
  leaves the body ends the whole request.
\<close>

definition upload_old_file ::
  "store \<Rightarrow> string \<Rightarrow> string \<Rightarrow> string \<Rightarrow> file_entry \<Rightarrow> string \<Rightarrow> string
     \<Rightarrow> ParsedData option \<Rightarrow> outcome action"
where
  "upload_old_file db ifExists explicitTableName nullability file ext suggestedNameFromFile parsed =
     bind (query db (RegisterProcessing file)) (\<lambda>_.
       if ext \<notin> set [''.csv'', ''.xlsx'', ''.xls''] then
         bind (query db (SetStatus ''unsupported'' (file_id file))) (\<lambda>_. return Continue)
       else case parsed of
         None \<Rightarrow> bind (query db (SetStatus ''empty'' (file_id file))) (\<lambda>_. return Continue)
       | Some p \<Rightarrow>
           if length (rows p) = 0 then
             bind (query db (SetStatus ''empty'' (file_id file))) (\<lambda>_. return Continue)
           else
             (let tableName = target_table explicitTableName suggestedNameFromFile;
                  schema = inferTableSchema (headers p) (rows p);
                  createSql = generateCreateTableSql tableName schema ifExists nullability
              in try_catch
                   (bind (if ifExists = ''replace'' then
                            bind (query db (DropTable tableName)) (\<lambda>_. return ())
                          else return ()) (\<lambda>_.
                    bind (if ifExists = ''fail'' then
                            bind (query db (ShowTables tableName)) (\<lambda>existing.
                              return (table_exists existing))
                          else return False) (\<lambda>exists.
                      if exists then
                        bind (query db (SetStatus ''failed'' (file_id file))) (\<lambda>_. return Continue)
                      else
                        bind (query db (CreateTable createSql)) (\<lambda>_.
                        bind (insert_batches (insert_with_repair db schema tableName)
                                schema tableName (headers p) (rows p) 0) (\<lambda>_.
                        bind (query db (SetProcessed (length (rows p)) (file_id file))) (\<lambda>_.
                          return (Processed tableName (length (rows p)))))))))
                   (\<lambda>err. bind (query db (SetStatus ''failed'' (file_id file))) (\<lambda>_. return Failed))))"

text \<open>\<open>importDataToTable\<close>; \<open>suggestedNameFromFile\<close> is the name that \<open>path\<close> takes from
  \<open>file.name\<close>.\<close>

definition importDataToTable ::
  "store \<Rightarrow> file_entry \<Rightarrow> string \<Rightarrow> ParsedData \<Rightarrow> string \<Rightarrow> string \<Rightarrow> unit action"
where
  "importDataToTable db file suggestedNameFromFile parsed ifExists explicitTableName =
     (let tableName = target_table explicitTableName suggestedNameFromFile;
          schema = inferTableSchema (headers parsed) (rows parsed);
          nullability = ''all-nullable'';
          createSql = generateCreateTableSql tableName schema ifExists nullability
      in bind (if ifExists = ''replace'' then
                 bind (query db (DropTable tableName)) (\<lambda>_. return ())
               else return ()) (\<lambda>_.
         bind (if ifExists = ''fail'' then
                 bind (query db (ShowTables tableName)) (\<lambda>existing. return (table_exists existing))
               else return False) (\<lambda>exists.
           if exists then
             bind (query db (SetStatus ''failed'' (file_id file))) (\<lambda>_. return ())
           else
             bind (query db (CreateTable createSql)) (\<lambda>_.
             bind (insert_batches (insert_plain db) schema tableName (headers parsed) (rows parsed) 0) (\<lambda>_.
             bind (query db (SetProcessed (length (rows parsed)) (file_id file))) (\<lambda>_.
               return ()))))))"

text \<open>The batches as the specification describes them: consecutive pieces of \<open>n\<close> rows,
  the last one holding the remainder.\<close>

function chunks :: "nat \<Rightarrow> 'a list \<Rightarrow> 'a list list" where
  "chunks n xs = (if n = 0 \<or> xs = [] then [] else take n xs # chunks n (drop n xs))"
  by pat_completeness auto
termination
  by (relation "measure (\<lambda>(n, xs). length xs)") auto

declare chunks.simps [simp del]

text \<open>Kinds of statement.\<close>

definition is_insert :: "stmt \<Rightarrow> bool" where
  "is_insert s = (case s of Insert t cs vs \<Rightarrow> True | _ \<Rightarrow> False)"

definition is_ddl :: "stmt \<Rightarrow> bool" where
  "is_ddl s = (case s of DropTable t \<Rightarrow> True | CreateTable q \<Rightarrow> True | AlterNull t c ty \<Rightarrow> True
                 | _ \<Rightarrow> False)"

text \<open>Stores and inputs of the examples.\<close>

definition accepting :: store where
  \<comment> \<open>every statement succeeds, no table is reported\<close>
  "accepting h s = Inr OkPacket"

definition reporting_tables :: store where
  \<comment> \<open>every statement succeeds, every table asked for is reported\<close>
  "reporting_tables h s =
     (case s of ShowTables t \<Rightarrow> Inr (Rows [[(''Tables_in_db'', t)]]) | _ \<Rightarrow> Inr OkPacket)"

definition not_null_error :: "string \<Rightarrow> sql_error" where
  "not_null_error c =
     \<lparr>sqlMessage = ''Column '' @ [quote] @ c @ [quote] @ '' cannot be null'', message = []\<rparr>"

definition rejecting_nulls :: "string \<Rightarrow> nat \<Rightarrow> store" where
  \<comment> \<open>the first \<open>k\<close> inserts fail on a not-null column \<open>c\<close>, everything else succeeds\<close>
  "rejecting_nulls c k h s =
     (if is_insert s \<and> length (filter is_insert h) < k then Inl (not_null_error c)
      else Inr OkPacket)"

definition rejecting_all_inserts :: store where
  \<comment> \<open>every insert fails with an error that names no column\<close>
  "rejecting_all_inserts h s =
     (if is_insert s then Inl \<lparr>sqlMessage = ''Lock wait timeout exceeded'', message = []\<rparr>
      else Inr OkPacket)"

definition example_file :: file_entry where
  "example_file = \<lparr>file_id = ''f1'', file_name = ''data.csv'', file_mimeType = ''text/csv'',
     file_webViewLink = ''link''\<rparr>"

definition no_cells :: row where
  "no_cells = (\<lambda>k. Undefined)"

text \<open>The suffixes \<open>_s\<close>, \<open>_(s+1)\<close>, ... that \<open>k\<close> rounds of the renaming loop append.\<close>

definition suffix_run :: "nat \<Rightarrow> nat \<Rightarrow> string" where
  "suffix_run s k = concat (map (\<lambda>j. ''_'' @ show_nat j) [s..<s + k])"

definition absent_rows :: "row list" where
  \<comment> \<open>two rows, the second without the key \<open>a\<close>\<close>
  "absent_rows = [no_cells(''a'' := Str ''1''), no_cells]"

definition boolean_column :: ColumnSchema where
  "boolean_column = \<lparr>name = ''a'', originalHeader = ''a'', type = BOOLEAN, length_opt = None,
     nullable = True\<rparr>"





section \<open>Properties of sanitizeSqlIdentifier\<close>

lemma ident_underscore: "is_ident_char (CHR ''_'')"
  by (simp add: is_ident_char_def)

lemma replace_non_ident_chars: "list_all is_ident_char (replace_non_ident s)"
  by (induction s rule: replace_non_ident.induct) (auto simp: ident_underscore)

lemma strip_underscores_subset: "set (strip_underscores s) \<subseteq> set s"
  unfolding strip_underscores_def
  by (metis set_dropWhileD set_rev subsetI)

lemma collapse_underscores_chars:
  "list_all is_ident_char s \<Longrightarrow> list_all is_ident_char (collapse_underscores s)"
proof (induction s rule: collapse_underscores.induct)
  case 1
  then show ?case by simp
next
  case (2 c cs)
  have "list_all is_ident_char (dropWhile is_underscore cs)"
    using 2(3) by (auto simp: list_all_iff dest: set_dropWhileD)
  with 2 show ?case by (auto simp: ident_underscore)
qed

lemma sanitize_nonempty: "sanitizeSqlIdentifier x \<noteq> []"
  by (simp add: sanitizeSqlIdentifier_def Let_def)

lemma sanitize_chars: "list_all is_ident_char (sanitizeSqlIdentifier x)"
proof -
  let ?s1 = "replace_non_ident (toLowerCase (trim x))"
  let ?s2 = "if ?s1 = [] \<or> is_digit (hd ?s1) then ''col_'' @ ?s1 else ?s1"
  have "list_all is_ident_char ''col_''" by (simp add: is_ident_char_def)
  then have "list_all is_ident_char ?s2" using replace_non_ident_chars[of "toLowerCase (trim x)"]
    by simp
  then have "list_all is_ident_char (strip_underscores ?s2)"
    using strip_underscores_subset[of ?s2] by (auto simp: list_all_iff)
  then have 1: "list_all is_ident_char (collapse_underscores (strip_underscores ?s2))"
    by (rule collapse_underscores_chars)
  have 2: "list_all is_ident_char ''col_unnamed''" by (simp add: is_ident_char_def)
  show ?thesis using 1 2 by (simp add: sanitizeSqlIdentifier_def Let_def)
qed

lemma hd_strip_underscores:
  "strip_underscores s \<noteq> [] \<Longrightarrow> \<not> is_underscore (hd (strip_underscores s))"
proof -
  assume ne: "strip_underscores s \<noteq> []"
  let ?t = "dropWhile is_underscore s"
  have t: "?t \<noteq> []"
  proof
    assume e: "?t = []"
    have "strip_underscores s = []" unfolding strip_underscores_def e by simp
    with ne show False by simp
  qed
  then have h: "\<not> is_underscore (hd ?t)" by (rule hd_dropWhile)
  obtain c cs where tc: "?t = c # cs" using t by (cases ?t) auto
  have "strip_underscores s = rev (dropWhile is_underscore (rev cs @ [c]))"
    by (simp add: strip_underscores_def tc)
  also have "dropWhile is_underscore (rev cs @ [c]) = dropWhile is_underscore (rev cs) @ [c]"
    using h tc by (simp add: dropWhile_append3)
  finally have "strip_underscores s = c # rev (dropWhile is_underscore (rev cs))" by simp
  with h tc show ?thesis by simp
qed

lemma last_strip_underscores:
  "strip_underscores s \<noteq> [] \<Longrightarrow> \<not> is_underscore (last (strip_underscores s))"
proof -
  assume ne: "strip_underscores s \<noteq> []"
  then have "dropWhile is_underscore (rev (dropWhile is_underscore s)) \<noteq> []"
    by (simp add: strip_underscores_def)
  then have "\<not> is_underscore (hd (dropWhile is_underscore (rev (dropWhile is_underscore s))))"
    by (rule hd_dropWhile)
  then show ?thesis using ne by (simp add: strip_underscores_def last_rev)
qed

lemma hd_collapse:
  "s \<noteq> [] \<Longrightarrow> \<not> is_underscore (hd s) \<Longrightarrow>
     collapse_underscores s \<noteq> [] \<and> hd (collapse_underscores s) = hd s"
  by (cases s) auto

lemma collapse_nonempty: "s \<noteq> [] \<Longrightarrow> collapse_underscores s \<noteq> []"
  by (cases s) auto

lemma last_collapse:
  "s \<noteq> [] \<Longrightarrow> \<not> is_underscore (last s) \<Longrightarrow> \<not> is_underscore (last (collapse_underscores s))"
proof (induction s rule: collapse_underscores.induct)
  case 1
  then show ?case by simp
next
  case (2 c cs)
  show ?case
  proof (cases "is_underscore c")
    case True
    with 2(3,4) have cs: "cs \<noteq> []" by (cases cs) auto
    with 2(4) have l: "\<not> is_underscore (last cs)" by simp
    have ne: "dropWhile is_underscore cs \<noteq> []"
      using cs l by (metis dropWhile_eq_Nil_conv last_in_set)
    have "last (dropWhile is_underscore cs) = last cs"
      using ne by (metis append_Nil2 last_appendR takeWhile_dropWhile_id)
    with 2(1)[OF True ne] l True ne show ?thesis
      by (simp add: collapse_nonempty)
  next
    case False
    show ?thesis
    proof (cases "cs = []")
      case True
      with False show ?thesis by simp
    next
      case ne: False
      with 2(4) have "\<not> is_underscore (last cs)" by simp
      with 2(2)[OF False ne] False ne show ?thesis by (simp add: collapse_nonempty)
    qed
  qed
qed


lemma dropWhile_collapse:
  "s = [] \<or> \<not> is_underscore (hd s) \<Longrightarrow>
     dropWhile is_underscore (collapse_underscores s) = collapse_underscores s"
  by (cases s) auto

lemma collapse_idem: "collapse_underscores (collapse_underscores s) = collapse_underscores s"
proof (induction s rule: collapse_underscores.induct)
  case 1
  then show ?case by simp
next
  case (2 c cs)
  show ?case
  proof (cases "is_underscore c")
    case True
    let ?t = "dropWhile is_underscore cs"
    have "?t = [] \<or> \<not> is_underscore (hd ?t)" using hd_dropWhile[of is_underscore cs] by blast
    then have "dropWhile is_underscore (collapse_underscores ?t) = collapse_underscores ?t"
      by (rule dropWhile_collapse)
    with 2(1)[OF True] True show ?thesis by (simp add: is_underscore_def)
  next
    case False
    with 2(2) show ?thesis by simp
  qed
qed

lemma ident_not_space: "is_ident_char c \<Longrightarrow> \<not> is_space c"
  by (auto simp: is_space_def is_ident_char_def Let_def)

lemma ident_lower: "is_ident_char c \<Longrightarrow> lower_char c = c"
  by (auto simp: lower_char_def is_ident_char_def Let_def)

lemma trim_ident: "list_all is_ident_char s \<Longrightarrow> trim s = s"
proof -
  assume a: "list_all is_ident_char s"
  then have "dropWhile is_space s = s" by (cases s) (auto simp: ident_not_space)
  moreover from a have "list_all is_ident_char (rev s)" by (simp add: list_all_iff)
  then have "dropWhile is_space (rev s) = rev s" by (cases "rev s") (auto simp: ident_not_space)
  ultimately show ?thesis by (simp add: trim_def)
qed

lemma lower_ident: "list_all is_ident_char s \<Longrightarrow> toLowerCase s = s"
  by (induction s) (auto simp: toLowerCase_def ident_lower)

lemma replace_ident: "list_all is_ident_char s \<Longrightarrow> replace_non_ident s = s"
  by (induction s) auto

lemma strip_clean:
  assumes "s \<noteq> []" "\<not> is_underscore (hd s)" "\<not> is_underscore (last s)"
  shows "strip_underscores s = s"
proof -
  from assms have "dropWhile is_underscore s = s" by (cases s) auto
  moreover from assms have "dropWhile is_underscore (rev s) = rev s"
    by (cases "rev s") (auto simp: hd_rev)
  ultimately show ?thesis by (simp add: strip_underscores_def)
qed

text \<open>What holds of every result of \<open>sanitize\<close>.\<close>

lemma sanitize_shape:
  "\<not> is_underscore (hd (sanitizeSqlIdentifier x))
   \<and> \<not> is_underscore (last (sanitizeSqlIdentifier x))
   \<and> collapse_underscores (sanitizeSqlIdentifier x) = sanitizeSqlIdentifier x"
proof -
  let ?s1 = "replace_non_ident (toLowerCase (trim x))"
  let ?s2 = "if ?s1 = [] \<or> is_digit (hd ?s1) then ''col_'' @ ?s1 else ?s1"
  let ?s3 = "collapse_underscores (strip_underscores ?s2)"
  show ?thesis
  proof (cases "?s3 = []")
    case True
    then have "sanitizeSqlIdentifier x = ''col_unnamed''"
      by (simp add: sanitizeSqlIdentifier_def Let_def)
    then show ?thesis by (simp add: is_underscore_def)
  next
    case False
    then have r: "sanitizeSqlIdentifier x = ?s3" by (simp add: sanitizeSqlIdentifier_def Let_def)
    from False have ne: "strip_underscores ?s2 \<noteq> []" by auto
    have h: "\<not> is_underscore (hd (strip_underscores ?s2))" using hd_strip_underscores[OF ne] .
    have l: "\<not> is_underscore (last (strip_underscores ?s2))" using last_strip_underscores[OF ne] .
    from hd_collapse[OF ne h] h have "\<not> is_underscore (hd ?s3)" by simp
    moreover from last_collapse[OF ne l] have "\<not> is_underscore (last ?s3)" .
    moreover have "collapse_underscores ?s3 = ?s3" by (rule collapse_idem)
    ultimately show ?thesis unfolding r by blast
  qed
qed

text \<open>Apart from a leading digit the result has the shape of a safe identifier, and
  \<open>sanitize\<close> leaves it as it is: the two properties fail together, on a leading digit.\<close>

lemma sanitize_valid_unless_digit:
  "\<not> is_digit (hd (sanitizeSqlIdentifier x)) \<Longrightarrow> valid_identifier (sanitizeSqlIdentifier x)"
proof -
  assume d: "\<not> is_digit (hd (sanitizeSqlIdentifier x))"
  obtain c cs where r: "sanitizeSqlIdentifier x = c # cs"
    using sanitize_nonempty[of x] by (cases "sanitizeSqlIdentifier x") auto
  from sanitize_chars[of x] r have all: "is_ident_char c" "list_all is_ident_char cs" by simp_all
  from sanitize_shape[of x] r have "\<not> is_underscore c" by simp
  then have "of_char c \<noteq> (95::nat)"
    using of_char_eq_iff[of c "CHR ''_''", where ?'a = nat] by (auto simp: is_underscore_def)
  with d r all(1) have "is_lower_letter c"
    by (auto simp: is_ident_char_def is_digit_def is_lower_letter_def Let_def)
  with all(2) r show ?thesis by (simp add: valid_identifier_def)
qed

lemma sanitize_idempotent_unless_digit:
  assumes d: "\<not> is_digit (hd (sanitizeSqlIdentifier x))"
  shows "sanitizeSqlIdentifier (sanitizeSqlIdentifier x) = sanitizeSqlIdentifier x"
proof -
  let ?r = "sanitizeSqlIdentifier x"
  have ne: "?r \<noteq> []" by (rule sanitize_nonempty)
  have all: "list_all is_ident_char ?r" by (rule sanitize_chars)
  have s1: "replace_non_ident (toLowerCase (trim ?r)) = ?r"
    using all by (simp add: trim_ident lower_ident replace_ident)
  from sanitize_shape[of x] have h: "\<not> is_underscore (hd ?r)" and l: "\<not> is_underscore (last ?r)"
    and c: "collapse_underscores ?r = ?r" by simp_all
  have s3: "collapse_underscores (strip_underscores ?r) = ?r"
    using strip_clean[OF ne h l] c by simp
  show ?thesis
    by (subst (1) sanitizeSqlIdentifier_def) (simp add: Let_def s1 ne d s3)
qed

text \<open>
  C5: the output of \<open>sanitize\<close> is the placeholder or has the shape \<open>^[a-z][a-z0-9_]*$\<close>;
  in particular it never starts with a digit. The code prefixes \<open>col_\<close> to a leading digit
  before it strips the leading underscores, so a digit that follows leading underscores
  comes to the front afterwards: the label \<open>-1\<close> becomes \<open>_1\<close>, passes the digit test, and
  is returned as \<open>1\<close>. Every result is non-empty and made of lower-case letters, digits
  and underscores (\<open>sanitize_nonempty\<close>, \<open>sanitize_chars\<close>), and a result that does not
  start with a digit has the shape (\<open>sanitize_valid_unless_digit\<close>).
\<close>

theorem sanitize_leading_digit:
  "sanitizeSqlIdentifier ''-1'' = ''1'' \<and> \<not> valid_identifier (sanitizeSqlIdentifier ''-1'')
   \<and> sanitizeSqlIdentifier ''-1'' \<noteq> ''col_unnamed''"
  by code_simp

text \<open>
  C6: \<open>sanitize\<close> is idempotent. On the label \<open>-1\<close> the first pass returns \<open>1\<close> and the
  second pass, which now sees the leading digit, returns \<open>col_1\<close>. A result that does
  not start with a digit is left as it is (\<open>sanitize_idempotent_unless_digit\<close>).
\<close>

theorem sanitize_not_idempotent:
  "sanitizeSqlIdentifier (sanitizeSqlIdentifier ''-1'') = ''col_1''
   \<and> sanitizeSqlIdentifier ''-1'' = ''1''
   \<and> sanitizeSqlIdentifier (sanitizeSqlIdentifier ''-1'') \<noteq> sanitizeSqlIdentifier ''-1''"
  by code_simp

section \<open>Properties of inferTableSchema\<close>

lemma columns_inferTableSchema:
  "columns (inferTableSchema hs rws) = map (infer_column (take 1000 rws)) (initial_columns [] hs)"
  by (simp add: inferTableSchema_def Let_def)

lemma length_initial_columns: "length (initial_columns used hs) = length hs"
  by (induction hs arbitrary: used) (auto simp: Let_def)

lemma length_columns_inferTableSchema: "length (columns (inferTableSchema hs rws)) = length hs"
  by (simp add: columns_inferTableSchema length_initial_columns)

lemma infer_column_keeps:
  "name (infer_column sample col) = name col"
  "originalHeader (infer_column sample col) = originalHeader col"
  by (simp_all add: infer_column_def Let_def)

lemma names_inferTableSchema:
  "map name (columns (inferTableSchema hs rws)) = map name (initial_columns [] hs)"
  by (simp add: columns_inferTableSchema infer_column_keeps)

subsection \<open>The renaming loop\<close>

lemma suffix_run_Suc: "suffix_run s (Suc k) = ''_'' @ show_nat s @ suffix_run (Suc s) k"
  by (simp add: suffix_run_def upt_conv_Cons del: upt_Suc)

lemma unique_name_fresh: "unique_name used nm s \<notin> set used"
proof (induction used nm s rule: unique_name.induct)
  case (1 used nm suffix)
  then show ?case by (subst unique_name.simps) auto
qed

lemma unique_name_least:
  "\<exists>k. unique_name used nm s = nm @ suffix_run s k
       \<and> (\<forall>j<k. nm @ suffix_run s j \<in> set used)
       \<and> nm @ suffix_run s k \<notin> set used"
proof (induction used nm s rule: unique_name.induct)
  case (1 used nm suffix)
  show ?case
  proof (cases "nm \<in> set used")
    case True
    let ?nm' = "nm @ ''_'' @ show_nat suffix"
    from 1[OF True] obtain k where
      eq: "unique_name used ?nm' (Suc suffix) = ?nm' @ suffix_run (Suc suffix) k"
      and below: "\<forall>j<k. ?nm' @ suffix_run (Suc suffix) j \<in> set used"
      and fresh: "?nm' @ suffix_run (Suc suffix) k \<notin> set used"
      by blast
    have shift: "\<And>j. nm @ suffix_run suffix (Suc j) = ?nm' @ suffix_run (Suc suffix) j"
      by (simp add: suffix_run_Suc)
    have "unique_name used nm suffix = nm @ suffix_run suffix (Suc k)"
      using True eq by (subst unique_name.simps) (simp add: suffix_run_Suc)
    moreover have "\<forall>j<Suc k. nm @ suffix_run suffix j \<in> set used"
    proof (intro allI impI)
      fix j assume "j < Suc k"
      show "nm @ suffix_run suffix j \<in> set used"
      proof (cases j)
        case 0
        with True show ?thesis by (simp add: suffix_run_def)
      next
        case (Suc i)
        with \<open>j < Suc k\<close> below have "?nm' @ suffix_run (Suc suffix) i \<in> set used" by simp
        then have "nm @ suffix_run suffix (Suc i) \<in> set used" unfolding shift .
        with Suc show ?thesis by simp
      qed
    qed
    moreover have "nm @ suffix_run suffix (Suc k) \<notin> set used"
      using fresh unfolding shift .
    ultimately show ?thesis by blast
  next
    case False
    then have "unique_name used nm suffix = nm @ suffix_run suffix 0"
      by (subst unique_name.simps) (simp add: suffix_run_def)
    moreover have "nm @ suffix_run suffix 0 \<notin> set used" using False by (simp add: suffix_run_def)
    ultimately show ?thesis by (metis not_less_zero)
  qed
qed

lemma names_initial_columns:
  "distinct (map name (initial_columns used hs))
   \<and> set (map name (initial_columns used hs)) \<inter> set used = {}"
proof (induction hs arbitrary: used)
  case Nil
  then show ?case by simp
next
  case (Cons h hs)
  let ?nm = "unique_name used (sanitizeSqlIdentifier (header_text h)) 1"
  have fresh: "?nm \<notin> set used" by (rule unique_name_fresh)
  from Cons[of "used @ [?nm]"] have
    d: "distinct (map name (initial_columns (used @ [?nm]) hs))" and
    i: "set (map name (initial_columns (used @ [?nm]) hs)) \<inter> set (used @ [?nm]) = {}"
    by blast+
  from i have "?nm \<notin> set (map name (initial_columns (used @ [?nm]) hs))"
    and "set (map name (initial_columns (used @ [?nm]) hs)) \<inter> set used = {}"
    by auto
  with d fresh show ?case by (simp add: Let_def)
qed

lemma nth_initial_header:
  "i < length hs \<Longrightarrow> originalHeader (initial_columns used hs ! i) = header_text (hs ! i)"
proof (induction hs arbitrary: used i)
  case Nil
  then show ?case by simp
next
  case (Cons h hs)
  then show ?case by (cases i) (simp_all add: Let_def)
qed

text \<open>In the first pass the set \<open>used\<close> holds the names of the columns before.\<close>

lemma nth_initial_name_least:
  "i < length hs \<Longrightarrow>
     \<exists>k. name (initial_columns used hs ! i)
            = sanitizeSqlIdentifier (header_text (hs ! i)) @ suffix_run 1 k
        \<and> (\<forall>j<k. sanitizeSqlIdentifier (header_text (hs ! i)) @ suffix_run 1 j
                    \<in> set (used @ take i (map name (initial_columns used hs))))
        \<and> sanitizeSqlIdentifier (header_text (hs ! i)) @ suffix_run 1 k
             \<notin> set (used @ take i (map name (initial_columns used hs)))"
proof (induction hs arbitrary: used i)
  case Nil
  then show ?case by simp
next
  case (Cons h hs)
  let ?nm = "unique_name used (sanitizeSqlIdentifier (header_text h)) 1"
  show ?case
  proof (cases i)
    case 0
    then show ?thesis
      using unique_name_least[of used "sanitizeSqlIdentifier (header_text h)" 1]
      by (simp add: Let_def)
  next
    case (Suc j)
    with Cons.prems have "j < length hs" by simp
    from Cons.IH[OF this, of "used @ [?nm]"] Suc show ?thesis by (simp add: Let_def)
  qed
qed

text \<open>
  C7, as stated: each collision is resolved by appending \<open>_1\<close>, \<open>_2\<close>, ... to the
  sanitized identifier. The loop appends the next number to the name it has reached, not
  to the sanitized identifier: of three headers \<open>a\<close> the third becomes \<open>a_1_2\<close>, not
  \<open>a_2\<close>.
\<close>

theorem third_collision_is_not_2:
  "map name (columns (inferTableSchema [Some ''a'', Some ''a'', Some ''a''] []))
     = [''a'', ''a_1'', ''a_1_2'']
   \<and> sanitizeSqlIdentifier ''a'' = ''a''
   \<and> name (columns (inferTableSchema [Some ''a'', Some ''a'', Some ''a''] []) ! 2)
        \<noteq> sanitizeSqlIdentifier ''a'' @ ''_2''"
  by code_simp

text \<open>
  C7, amended: for every header list the schema has one column per header and the column
  identifiers are pairwise distinct. The identifier of a header is its sanitized form
  followed by \<open>_1\<close>, \<open>_2\<close>, ..., \<open>_k\<close>, each appended to the name reached before, where
  \<open>k\<close> counts the collisions met: the sanitized form followed by \<open>_1\<close>, ..., \<open>_j\<close> is the
  name of an earlier column for every \<open>j\<close> below \<open>k\<close>, and for \<open>k\<close> it is not. A header
  that collides with no earlier column keeps its sanitized form (\<open>k = 0\<close>).
\<close>

theorem dedup_distinct_names:
  "length (columns (inferTableSchema hs rws)) = length hs
   \<and> distinct (map name (columns (inferTableSchema hs rws)))
   \<and> (\<forall>i<length hs. \<exists>k.
         name (columns (inferTableSchema hs rws) ! i)
           = sanitizeSqlIdentifier (header_text (hs ! i)) @ suffix_run 1 k
         \<and> (\<forall>j<k. sanitizeSqlIdentifier (header_text (hs ! i)) @ suffix_run 1 j
                     \<in> set (take i (map name (columns (inferTableSchema hs rws)))))
         \<and> sanitizeSqlIdentifier (header_text (hs ! i)) @ suffix_run 1 k
              \<notin> set (take i (map name (columns (inferTableSchema hs rws)))))"
proof (intro conjI allI impI)
  show "length (columns (inferTableSchema hs rws)) = length hs"
    by (rule length_columns_inferTableSchema)
  show "distinct (map name (columns (inferTableSchema hs rws)))"
    using names_initial_columns[of "[]" hs] by (simp only: names_inferTableSchema)
  fix i assume i: "i < length hs"
  have "name (columns (inferTableSchema hs rws) ! i) = name (initial_columns [] hs ! i)"
    using i by (simp add: columns_inferTableSchema length_initial_columns infer_column_keeps)
  with nth_initial_name_least[OF i, of "[]"]
  show "\<exists>k. name (columns (inferTableSchema hs rws) ! i)
           = sanitizeSqlIdentifier (header_text (hs ! i)) @ suffix_run 1 k
         \<and> (\<forall>j<k. sanitizeSqlIdentifier (header_text (hs ! i)) @ suffix_run 1 j
                     \<in> set (take i (map name (columns (inferTableSchema hs rws)))))
         \<and> sanitizeSqlIdentifier (header_text (hs ! i)) @ suffix_run 1 k
              \<notin> set (take i (map name (columns (inferTableSchema hs rws))))"
    by (simp add: names_inferTableSchema)
qed

theorem dedup_distinct_names_witness:
  "map name (columns (inferTableSchema [Some ''a'', Some ''b'', Some ''A'', Some ''a''] []))
     = [''a'', ''b'', ''a_1'', ''a_1_2'']
   \<and> [sanitizeSqlIdentifier ''a'' @ suffix_run 1 0, sanitizeSqlIdentifier ''b'' @ suffix_run 1 0,
       sanitizeSqlIdentifier ''A'' @ suffix_run 1 1, sanitizeSqlIdentifier ''a'' @ suffix_run 1 2]
     = [''a'', ''b'', ''a_1'', ''a_1_2'']
   \<and> length (columns (inferTableSchema [Some ''a'', Some ''b'', Some ''A'', Some ''a''] [])) = 4
   \<and> distinct (map name (columns (inferTableSchema [Some ''a'', Some ''b'', Some ''A'', Some ''a''] [])))"
proof -
  have ev: "map name (columns (inferTableSchema [Some ''a'', Some ''b'', Some ''A'', Some ''a''] []))
     = [''a'', ''b'', ''a_1'', ''a_1_2'']" by code_simp
  have ev2: "[sanitizeSqlIdentifier ''a'' @ suffix_run 1 0, sanitizeSqlIdentifier ''b'' @ suffix_run 1 0,
       sanitizeSqlIdentifier ''A'' @ suffix_run 1 1, sanitizeSqlIdentifier ''a'' @ suffix_run 1 2]
     = [''a'', ''b'', ''a_1'', ''a_1_2'']" by code_simp
  from dedup_distinct_names[of "[Some ''a'', Some ''b'', Some ''A'', Some ''a'']" "[]"] ev ev2
  show ?thesis by simp
qed

subsection \<open>The detected type\<close>

lemma choose_type_never_DATE: "choose_type vs \<noteq> DATE"
  by (auto simp: choose_type_def list_all_iff)

text \<open>
  C3: a column whose values all match plain \<open>YYYY-MM-DD\<close>, none of them the date-time
  shape, is classified as the date type. In the code the test "every value is a date-time
  or a date" comes before the test "every value is a date" and holds whenever the latter
  does, so the date branch is never taken (\<open>choose_type_never_DATE\<close>): the column with the
  single value \<open>2024-01-01\<close> gets \<open>DATETIME\<close>.
\<close>

theorem plain_dates_are_DATETIME:
  "isIsoDate (Str ''2024-01-01'') \<and> \<not> isIsoDateTime (Str ''2024-01-01'')
   \<and> map type (columns (inferTableSchema [Some ''d''] [no_cells(''d'' := Str ''2024-01-01'')]))
       = [DATETIME]"
  by code_simp

subsection \<open>The detected nullability\<close>

lemma length_filter_less_iff:
  "(length (filter P xs) < length xs) = (\<exists>x\<in>set xs. \<not> P x)"
  by (induction xs) (auto simp: less_Suc_eq_le)

lemma nullable_infer_column:
  "nullable (infer_column sample col)
     = list_ex (\<lambda>r. r (originalHeader col) = Null \<or> r (originalHeader col) = Str []) sample"
proof -
  have "nullable (infer_column sample col)
          = (\<exists>v\<in>set (column_values sample col). \<not> (v \<noteq> Null \<and> v \<noteq> Str []))"
    by (simp add: infer_column_def Let_def column_nonNull_def length_filter_less_iff)
  also have "\<dots> = list_ex (\<lambda>r. r (originalHeader col) = Null \<or> r (originalHeader col) = Str [])
                     sample"
    unfolding column_values_def list_ex_iff set_filter set_map
    by (simp, rule bex_cong, simp, auto)
  finally show ?thesis .
qed

text \<open>
  C4, as stated: the flag is true whenever a sampled value is absent or empty. The code
  drops the absent values (\<open>undefined\<close>) before it counts, so a row that lacks the header
  does not make the column nullable.
\<close>

theorem absent_value_not_nullable:
  "(absent_rows ! 1) ''a'' = Undefined
   \<and> \<not> nullable (columns (inferTableSchema [Some ''a''] absent_rows) ! 0)"
  by code_simp

text \<open>
  C4, amended: for every column the detected nullable flag is true exactly when one of
  the first 1000 rows holds \<open>null\<close> or the empty string under the column's header; rows
  that lack the header are not counted.
\<close>

theorem nullable_iff_null_or_empty:
  "i < length hs \<Longrightarrow>
     nullable (columns (inferTableSchema hs rws) ! i)
       = list_ex (\<lambda>r. r (header_text (hs ! i)) = Null \<or> r (header_text (hs ! i)) = Str [])
           (take 1000 rws)"
  by (simp add: columns_inferTableSchema length_initial_columns nullable_infer_column
        nth_initial_header)

theorem nullable_iff_null_or_empty_witness:
  "(0::nat) < length [Some ''a''] \<and>
   nullable (columns (inferTableSchema [Some ''a''] [no_cells(''a'' := Str [])]) ! 0)
   \<and> list_ex (\<lambda>r. r (header_text ([Some ''a''] ! 0)) = Null \<or> r (header_text ([Some ''a''] ! 0)) = Str [])
           (take 1000 [no_cells(''a'' := Str [])])"
proof -
  have h: "(0::nat) < length [Some ''a'']" by simp
  have ev: "list_ex (\<lambda>r. r (header_text ([Some ''a''] ! 0)) = Null \<or> r (header_text ([Some ''a''] ! 0)) = Str [])
           (take 1000 [no_cells(''a'' := Str [])])"
    by (simp add: header_text_def)
  from nullable_iff_null_or_empty[OF h, of "[no_cells(''a'' := Str [])]"] ev h
  show ?thesis by simp
qed

section \<open>Properties of mapRowToSqlColumns\<close>

text \<open>
  C10: in a boolean column, a cell that is neither \<open>null\<close>, \<open>undefined\<close> nor the empty
  string, and whose trimmed lower-case text is not one of \<open>true\<close>, \<open>yes\<close>, \<open>y\<close>, \<open>1\<close>, is
  encoded as the number 0, whatever the text is.
\<close>

theorem boolean_other_text_is_zero:
  assumes "i < length (columns schema)"
    and "type (columns schema ! i) = BOOLEAN"
    and "raw = r (originalHeader (columns schema ! i))"
    and "raw \<noteq> Undefined" and "raw \<noteq> Null" and "raw \<noteq> Str []"
    and "toLowerCase (trim (String raw)) \<notin> set [''true'', ''yes'', ''y'', ''1'']"
  shows "mapRowToSqlColumns r hs schema ! i = PInt 0"
  using assms
  by (simp add: mapRowToSqlColumns_def encode_cell_def Let_def is_nullish_def is_empty_str_def)

theorem boolean_other_text_is_zero_witness:
  "mapRowToSqlColumns (no_cells(''a'' := Str ''banana'')) [Some ''a''] \<lparr>columns = [boolean_column]\<rparr> ! 0
     = PInt 0
   \<and> \<not> isBooleanLike (Str ''banana'')"
proof -
  have 1: "0 < length (columns \<lparr>columns = [boolean_column]\<rparr>)" by simp
  have 2: "type (columns \<lparr>columns = [boolean_column]\<rparr> ! 0) = BOOLEAN"
    by (simp add: boolean_column_def)
  have 3: "Str ''banana'' = (no_cells(''a'' := Str ''banana''))
             (originalHeader (columns \<lparr>columns = [boolean_column]\<rparr> ! 0))"
    by (simp add: boolean_column_def)
  have 4: "toLowerCase (trim (String (Str ''banana''))) \<notin> set [''true'', ''yes'', ''y'', ''1'']"
    by code_simp
  have 5: "\<not> isBooleanLike (Str ''banana'')" by code_simp
  from boolean_other_text_is_zero[of 0 "\<lparr>columns = [boolean_column]\<rparr>" "Str ''banana''"
         "no_cells(''a'' := Str ''banana'')" "[Some ''a'']", OF 1 2 3] 4 5
  show ?thesis by simp
qed

section \<open>Properties of the pipelines\<close>

lemmas action_defs = query_def bind_def return_def throw_def try_catch_def

subsection \<open>One batch insert\<close>

lemma type_name_nonempty: "type_name ty \<noteq> []"
  by (cases ty) (simp_all add: type_name_def)

lemma type_str_nonempty: "type_str c \<noteq> []"
  by (auto simp: type_str_def type_name_nonempty split: option.splits)


text \<open>In the \<open>upload_old\<close> handler a batch that fails on a not-null column of the schema
  is followed by the alter statement for that column and, when the store accepts it, by
  the same insert, once: the outcome of the step is the outcome of that second attempt.\<close>

lemma repair_resubmits_once:
  assumes "db log ins = Inl e"
    and "not_null_column (error_text e) = Some c"
    and "find (\<lambda>x. name x = c) (columns schema) = Some col"
    and "db (log @ [ins]) (AlterNull t c (type_str col)) = Inr r"
  shows "insert_with_repair db schema t ins log
           = (map_sum id (\<lambda>_. ()) (db (log @ [ins, AlterNull t c (type_str col)]) ins),
              log @ [ins, AlterNull t c (type_str col), ins])"
  using assms
  by (auto simp: insert_with_repair_def column_type_str_def action_defs Let_def type_str_nonempty
        split: sum.splits prod.splits)

text \<open>For a column that the schema does not know, the type comes from DESCRIBE.\<close>

lemma repair_unknown_column:
  assumes "db log ins = Inl e"
    and "not_null_column (error_text e) = Some c"
    and "find (\<lambda>x. name x = c) (columns schema) = None"
    and "db (log @ [ins]) (Describe t) = Inr d"
    and "db (log @ [ins, Describe t]) (AlterNull t c (described_type d c)) = Inr r"
  shows "insert_with_repair db schema t ins log
           = (map_sum id (\<lambda>_. ()) (db (log @ [ins, Describe t, AlterNull t c (described_type d c)]) ins),
              log @ [ins, Describe t, AlterNull t c (described_type d c), ins])"
  using assms
  by (auto simp: insert_with_repair_def column_type_str_def action_defs Let_def
        split: sum.splits prod.splits)

lemma other_error_propagates:
  assumes "db log ins = Inl e" and "not_null_column (error_text e) = None"
  shows "insert_with_repair db schema t ins log = (Inl e, log @ [ins])"
  using assms
  by (auto simp: insert_with_repair_def action_defs split: sum.splits prod.splits)


text \<open>\<open>importDataToTable\<close> has no handler: whatever the error, the insert is sent once.\<close>

lemma insert_plain_rejected:
  "db log ins = Inl e \<Longrightarrow> insert_plain db ins log = (Inl e, log @ [ins])"
  by (auto simp: insert_plain_def action_defs split: sum.splits prod.splits)

text \<open>The handler on a store that rejects the first insert for the null in column \<open>a\<close>,
  and on one that rejects the resubmitted batch as well: the second failure is not
  repaired again, and the source is marked failed.\<close>

lemma upload_old_repairs:
  "upload_old_file (rejecting_nulls ''a'' 1) ''append'' [] ''inferred'' example_file ''.csv'' ''data''
       (Some \<lparr>headers = [Some ''a''], rows = [no_cells(''a'' := Str [])]\<rparr>) []
     = (Inr (Processed ''data'' 1),
        [RegisterProcessing example_file,
         CreateTable (generateCreateTableSql ''data''
            (inferTableSchema [Some ''a''] [no_cells(''a'' := Str [])]) ''append'' ''inferred''),
         Insert ''data'' [''a''] [[PNull]],
         AlterNull ''data'' ''a'' ''LONGTEXT'',
         Insert ''data'' [''a''] [[PNull]],
         SetProcessed 1 ''f1''])"
  by code_simp

lemma upload_old_second_failure:
  "upload_old_file (rejecting_nulls ''a'' 2) ''append'' [] ''inferred'' example_file ''.csv'' ''data''
       (Some \<lparr>headers = [Some ''a''], rows = [no_cells(''a'' := Str [])]\<rparr>) []
     = (Inr Failed,
        [RegisterProcessing example_file,
         CreateTable (generateCreateTableSql ''data''
            (inferTableSchema [Some ''a''] [no_cells(''a'' := Str [])]) ''append'' ''inferred''),
         Insert ''data'' [''a''] [[PNull]],
         AlterNull ''data'' ''a'' ''LONGTEXT'',
         Insert ''data'' [''a''] [[PNull]],
         SetStatus ''failed'' ''f1''])"
  by code_simp

text \<open>
  C1: a batch insert that fails with a not-null violation naming a column is followed by
  an alter statement that makes the column nullable and by one resubmission of the batch.
  The \<open>upload_old\<close> handler does so (\<open>repair_resubmits_once\<close>, \<open>upload_old_repairs\<close>).
  \<open>importDataToTable\<close> has no handler around its insert: on a table whose column \<open>a\<close> is
  declared not null, the batch with an empty \<open>a\<close> is sent once, the error leaves the
  function, and neither an alter statement nor a second insert nor a status is sent.
\<close>

theorem import_no_repair:
  "importDataToTable (rejecting_nulls ''a'' 1) example_file ''data''
       \<lparr>headers = [Some ''a''], rows = [no_cells(''a'' := Str [])]\<rparr> ''append'' [] []
     = (Inl (not_null_error ''a''),
        [CreateTable (generateCreateTableSql ''data''
            (inferTableSchema [Some ''a''] [no_cells(''a'' := Str [])]) ''append'' ''all-nullable''),
         Insert ''data'' [''a''] [[PNull]]])"
  by code_simp

subsection \<open>A source without rows\<close>


text \<open>
  C2: a source that parses to zero rows gets the status \<open>empty\<close> and no DDL is executed.
  The \<open>upload_old\<close> handler does so (\<open>upload_old_empty\<close>). \<open>importDataToTable\<close> has no test
  for an empty row list, and its caller only tests that the parser returned something:
  for a source with the header \<open>a\<close> and no rows it creates the table and records the
  status \<open>processed\<close> with a row count of 0.
\<close>

theorem import_empty_creates_table:
  "importDataToTable accepting example_file ''data'' \<lparr>headers = [Some ''a''], rows = []\<rparr> ''append'' [] []
     = (Inr (), [CreateTable (generateCreateTableSql ''data'' (inferTableSchema [Some ''a''] [])
                    ''append'' ''all-nullable''),
                 SetProcessed 0 ''f1''])"
  by code_simp

subsection \<open>The conflict policy \<open>fail\<close>\<close>

lemma upload_old_fail_existing:
  assumes "ext \<in> set [''.csv'', ''.xlsx'', ''.xls'']"
    and "rows p \<noteq> []"
    and "t = target_table explicitTableName suggested"
    and "db log (RegisterProcessing file) = Inr r0"
    and "db (log @ [RegisterProcessing file]) (ShowTables t) = Inr existing"
    and "table_exists existing"
  shows "snd (upload_old_file db ''fail'' explicitTableName nullability file ext suggested (Some p) log)
           = log @ [RegisterProcessing file, ShowTables t, SetStatus ''failed'' (file_id file)]
       \<or> snd (upload_old_file db ''fail'' explicitTableName nullability file ext suggested (Some p) log)
           = log @ [RegisterProcessing file, ShowTables t, SetStatus ''failed'' (file_id file),
                    SetStatus ''failed'' (file_id file)]"
  using assms
  by (auto simp: upload_old_file_def action_defs Let_def split: sum.splits prod.splits)

lemma import_fail_existing:
  assumes "t = target_table explicitTableName suggested"
    and "db log (ShowTables t) = Inr existing"
    and "table_exists existing"
  shows "snd (importDataToTable db file suggested p ''fail'' explicitTableName log)
           = log @ [ShowTables t, SetStatus ''failed'' (file_id file)]"
  using assms
  by (auto simp: importDataToTable_def action_defs Let_def split: sum.splits prod.splits)

text \<open>
  C8: under the conflict policy \<open>fail\<close>, when the existence check reports the target
  table, the pipeline sends the update that sets the status \<open>failed\<close> and nothing that
  touches the target table: no drop, no create, no alter, no insert. In the \<open>upload_old\<close>
  handler the request is one whose source was parsed to at least one row (a source
  without rows is handled before the policy is looked at) and whose registry upsert
  succeeded; the statements sent are the upsert, the existence check and the status
  update, which is sent a second time by the handler's \<open>catch\<close> if the store rejects it.
  In \<open>importDataToTable\<close> they are the existence check and the status update.
\<close>

theorem fail_policy_existing_table:
  assumes "table_exists existing" and "t = target_table explicitTableName suggested"
  shows "(ext \<in> set [''.csv'', ''.xlsx'', ''.xls''] \<and> rows p \<noteq> []
            \<and> db log (RegisterProcessing file) = Inr r0
            \<and> db (log @ [RegisterProcessing file]) (ShowTables t) = Inr existing
          \<longrightarrow> (\<exists>new. snd (upload_old_file db ''fail'' explicitTableName nullability file ext
                            suggested (Some p) log) = log @ new
                  \<and> SetStatus ''failed'' (file_id file) \<in> set new
                  \<and> list_all (\<lambda>s. \<not> is_ddl s \<and> \<not> is_insert s) new
                  \<and> (new = [RegisterProcessing file, ShowTables t, SetStatus ''failed'' (file_id file)]
                     \<or> new = [RegisterProcessing file, ShowTables t,
                              SetStatus ''failed'' (file_id file),
                              SetStatus ''failed'' (file_id file)])))
       \<and> (db log' (ShowTables t) = Inr existing
          \<longrightarrow> (\<exists>new. snd (importDataToTable db file suggested p ''fail'' explicitTableName log')
                        = log' @ new
                  \<and> SetStatus ''failed'' (file_id file) \<in> set new
                  \<and> list_all (\<lambda>s. \<not> is_ddl s \<and> \<not> is_insert s) new
                  \<and> new = [ShowTables t, SetStatus ''failed'' (file_id file)]))"
proof (intro conjI impI)
  assume h: "ext \<in> set [''.csv'', ''.xlsx'', ''.xls''] \<and> rows p \<noteq> []
            \<and> db log (RegisterProcessing file) = Inr r0
            \<and> db (log @ [RegisterProcessing file]) (ShowTables t) = Inr existing"
  let ?F = "SetStatus ''failed'' (file_id file)"
  let ?res = "snd (upload_old_file db ''fail'' explicitTableName nullability file ext
                            suggested (Some p) log)"
  from h have h1: "ext \<in> set [''.csv'', ''.xlsx'', ''.xls'']" and h2: "rows p \<noteq> []"
    and h3: "db log (RegisterProcessing file) = Inr r0"
    and h4: "db (log @ [RegisterProcessing file]) (ShowTables t) = Inr existing"
    by simp_all
  from upload_old_fail_existing[where db = db and log = log, OF h1 h2 assms(2) h3 h4 assms(1)]
  have "?res = log @ [RegisterProcessing file, ShowTables t, ?F]
      \<or> ?res = log @ [RegisterProcessing file, ShowTables t, ?F, ?F]"
    by blast
  then show "\<exists>new. ?res = log @ new \<and> ?F \<in> set new
                  \<and> list_all (\<lambda>s. \<not> is_ddl s \<and> \<not> is_insert s) new
                  \<and> (new = [RegisterProcessing file, ShowTables t, ?F]
                     \<or> new = [RegisterProcessing file, ShowTables t, ?F, ?F])"
    by (auto simp: is_ddl_def is_insert_def)
next
  assume h: "db log' (ShowTables t) = Inr existing"
  from import_fail_existing[where db = db and log = log', OF assms(2) h assms(1)]
  show "\<exists>new. snd (importDataToTable db file suggested p ''fail'' explicitTableName log')
                        = log' @ new
                  \<and> SetStatus ''failed'' (file_id file) \<in> set new
                  \<and> list_all (\<lambda>s. \<not> is_ddl s \<and> \<not> is_insert s) new
                  \<and> new = [ShowTables t, SetStatus ''failed'' (file_id file)]"
    by (simp add: is_ddl_def is_insert_def)
qed

theorem fail_policy_existing_table_witness:
  "table_exists (Rows [[(''Tables_in_db'', ''data'')]])
   \<and> snd (upload_old_file reporting_tables ''fail'' [] ''inferred'' example_file ''.csv'' ''data''
            (Some \<lparr>headers = [Some ''a''], rows = [no_cells]\<rparr>) [])
       = [RegisterProcessing example_file, ShowTables ''data'', SetStatus ''failed'' ''f1'']
   \<and> snd (importDataToTable reporting_tables example_file ''data''
            \<lparr>headers = [Some ''a''], rows = [no_cells]\<rparr> ''fail'' [] [])
       = [ShowTables ''data'', SetStatus ''failed'' ''f1'']"
proof -
  have 1: "table_exists (Rows [[(''Tables_in_db'', ''data'')]])" by (simp add: table_exists_def)
  have 2: "''data'' = target_table [] ''data''" by code_simp
  have 3: "''.csv'' \<in> set [''.csv'', ''.xlsx'', ''.xls''] \<and> rows \<lparr>headers = [Some ''a''], rows = [no_cells]\<rparr> \<noteq> []
            \<and> reporting_tables [] (RegisterProcessing example_file) = Inr OkPacket
            \<and> reporting_tables ([] @ [RegisterProcessing example_file]) (ShowTables ''data'')
                = Inr (Rows [[(''Tables_in_db'', ''data'')]])"
    by (simp add: reporting_tables_def)
  have 4: "reporting_tables [] (ShowTables ''data'') = Inr (Rows [[(''Tables_in_db'', ''data'')]])"
    by (simp add: reporting_tables_def)
  have ev: "snd (upload_old_file reporting_tables ''fail'' [] ''inferred'' example_file ''.csv'' ''data''
            (Some \<lparr>headers = [Some ''a''], rows = [no_cells]\<rparr>) [])
       = [RegisterProcessing example_file, ShowTables ''data'', SetStatus ''failed'' ''f1'']"
    by code_simp
  have id: "file_id example_file = ''f1''" by (simp add: example_file_def)
  from fail_policy_existing_table[OF 1 2, of "''.csv''" "\<lparr>headers = [Some ''a''], rows = [no_cells]\<rparr>"
         reporting_tables "[]" example_file OkPacket "''inferred''" "[]"] 3 4
  have "snd (importDataToTable reporting_tables example_file ''data''
            \<lparr>headers = [Some ''a''], rows = [no_cells]\<rparr> ''fail'' [] [])
       = [ShowTables ''data'', SetStatus ''failed'' ''f1'']"
    by (simp add: id)
  with 1 ev show ?thesis by simp
qed

subsection \<open>The batches\<close>

















text \<open>An insert that the store rejects ends the loop: of the two batches of a source
  of 501 rows only the first is submitted.\<close>

lemma rejected_batch_stops_the_loop:
  "length (chunks 500 (replicate 501 no_cells)) = 2
   \<and> length (filter is_insert (snd (upload_old_file rejecting_all_inserts ''append'' []
          ''all-nullable'' example_file ''.csv'' ''data''
          (Some \<lparr>headers = [Some ''a''], rows = replicate 501 no_cells\<rparr>) []))) = 1"
  by code_simp


















end
